theory Spec2Isabelle
  imports Complex_Main "HOL-Library.Sublist" "HOL-Library.AList"
begin

section \<open>Python strings\<close>

text \<open>
  A Python \<open>str\<close> is modelled as a \<open>string\<close>, one \<open>char\<close> per character. The model is
  exact for ASCII text: \<open>lower\<close> maps \<open>A..Z\<close> to \<open>a..z\<close> and leaves every other character
  alone, \<open>strip\<close> removes the ASCII characters for which \<open>str.isspace\<close> holds, and
  \<open>isdigit\<close> recognises \<open>0..9\<close>. A character outside ASCII is carried as its UTF-8 bytes
  (caseless, not a space, not a digit).
\<close>

definition lower_char :: "char \<Rightarrow> char" where
  "lower_char c =
     (if 65 \<le> (of_char c :: nat) \<and> (of_char c :: nat) \<le> 90
      then char_of ((of_char c :: nat) + 32) else c)"

definition lower :: "string \<Rightarrow> string" where
  "lower s = map lower_char s"

definition isspace :: "char \<Rightarrow> bool" where
  "isspace c =
     ((9 \<le> (of_char c :: nat) \<and> (of_char c :: nat) \<le> 13) \<or>
      (28 \<le> (of_char c :: nat) \<and> (of_char c :: nat) \<le> 32))"

definition strip :: "string \<Rightarrow> string" where
  "strip s = rev (dropWhile isspace (rev (dropWhile isspace s)))"

text \<open>\<open>s.startswith(p)\<close> and the substring test \<open>sub in s\<close>.\<close>

fun startswith :: "string \<Rightarrow> string \<Rightarrow> bool" where
  "startswith s [] = True"
| "startswith [] (p # ps) = False"
| "startswith (c # s) (p # ps) = (c = p \<and> startswith s ps)"

fun str_contains :: "string \<Rightarrow> string \<Rightarrow> bool" where
  "str_contains [] sub = (sub = [])"
| "str_contains (c # s) sub = (startswith (c # s) sub \<or> str_contains s sub)"

text \<open>\<open>sep.join(parts)\<close>.\<close>

fun join :: "string \<Rightarrow> string list \<Rightarrow> string" where
  "join sep [] = []"
| "join sep [x] = x"
| "join sep (x # y # ys) = x @ sep @ join sep (y # ys)"

section \<open>Configuration (\<open>config.py\<close>)\<close>

text \<open>The fields of the global \<open>Config()\<close> instance that the modelled code reads.\<close>

definition chunk_size :: nat where "chunk_size = 800"
definition batch_size :: nat where "batch_size = 20"
definition top_k_retrieval :: nat where "top_k_retrieval = 3"
definition retry_delay :: rat where "retry_delay = 2"

text \<open>\<open>Config.__post_init__\<close>: no topics are passed, so the default list is installed.\<close>

definition sensitive_topics :: "string list" where
  "sensitive_topics =
     [''price'', ''pricing'', ''cost'', ''warranty'', ''guarantee'',
      ''availability'', ''stock'', ''delivery'', ''shipping'',
      ''technical specifications'', ''performance numbers'']"

section \<open>Guardrails (\<open>guardrails/checker.py\<close>)\<close>

text \<open>
  \<open>GuardrailsChecker.is_sensitive_question\<close>:
  \<open>any(topic in question.lower() for topic in self.sensitive_topics)\<close>; the checker's
  topic list is taken as an argument, \<open>is_sensitive_question\<close> is the checker built from
  the global configuration.
\<close>

definition is_sensitive_question_of :: "string list \<Rightarrow> string \<Rightarrow> bool" where
  "is_sensitive_question_of topics question =
     (let question_lower = lower question
      in list_ex (\<lambda>topic. str_contains question_lower topic) topics)"

definition is_sensitive_question :: "string \<Rightarrow> bool" where
  "is_sensitive_question question = is_sensitive_question_of sensitive_topics question"

text \<open>\<open>GuardrailsChecker.should_refuse_sensitive\<close>.\<close>

definition should_refuse_sensitive :: "bool \<Rightarrow> bool \<Rightarrow> bool" where
  "should_refuse_sensitive is_sensitive has_facts = (is_sensitive \<and> \<not> has_facts)"

text \<open>\<open>GuardrailsChecker.get_refusal_message\<close>.\<close>

definition get_refusal_message :: "string \<Rightarrow> string" where
  "get_refusal_message question_type =
     (if question_type = ''sensitive'' then
        ''I cannot provide information about pricing, warranty, or technical '' @
        ''specifications as this information is not available in my reliable sources.''
      else if question_type = ''insufficient_info'' then
        ''I don't have enough information to answer this question safely.''
      else if question_type = ''validation_failed'' then
        ''I cannot provide a reliable answer based on the available sources. '' @
        ''Please try rephrasing your question or ask about topics covered in '' @
        ''the reliable documentation.''
      else ''I cannot provide information on this topic.'')"

subsection \<open>Numeric tokens\<close>

definition isdigit :: "char \<Rightarrow> bool" where
  "isdigit c = (48 \<le> (of_char c :: nat) \<and> (of_char c :: nat) \<le> 57)"

definition number_char :: "char \<Rightarrow> bool" where
  "number_char c = (isdigit c \<or> c = CHR '','')"

text \<open>
  \<open>re.findall(r'[\d,]+(?:\.\d+)?', answer)\<close>: scanning from the left, a match is a
  longest run of digits and commas, extended by a point and a longest run of digits when
  the point is followed by at least one digit; the scan resumes after the match.
\<close>

function re_findall_numbers :: "string \<Rightarrow> string list" where
  "re_findall_numbers s =
     (if s = [] then []
      else if takeWhile number_char s = [] then re_findall_numbers (tl s)
      else
        (let run = takeWhile number_char s; rest = dropWhile number_char s
         in case rest of
              c # rest' \<Rightarrow>
                if c = CHR ''.'' \<and> takeWhile isdigit rest' \<noteq> []
                then (run @ [c] @ takeWhile isdigit rest') #
                       re_findall_numbers (dropWhile isdigit rest')
                else run # re_findall_numbers rest
            | [] \<Rightarrow> run # re_findall_numbers rest))"
  by pat_completeness auto

termination
proof (relation "measure length")
  show "wf (measure length)" by simp
next
  fix s :: string
  assume "s \<noteq> []"
  then show "(tl s, s) \<in> measure length" by (cases s) simp_all
next
  fix s x xa :: string and x21 :: char and x22 :: string
  assume "xa = dropWhile number_char s" and "xa = x21 # x22"
  then have "length (x21 # x22) \<le> length s"
    using length_dropWhile_le [of number_char s] by metis
  then have "length x22 < length s" by simp
  moreover have "length (dropWhile isdigit x22) \<le> length x22"
    by (rule length_dropWhile_le)
  ultimately show "(dropWhile isdigit x22, s) \<in> measure length" by simp
next
  fix s x xa :: string
  assume "takeWhile number_char s \<noteq> []" and "xa = dropWhile number_char s"
  then show "(xa, s) \<in> measure length"
    using length_dropWhile_le [of number_char "tl s"] by (cases s) (auto split: if_splits)
next
  fix s x xa :: string
  assume "takeWhile number_char s \<noteq> []" and "xa = dropWhile number_char s"
  then show "(xa, s) \<in> measure length"
    using length_dropWhile_le [of number_char "tl s"] by (cases s) (auto split: if_splits)
qed

declare re_findall_numbers.simps [simp del]

subsection \<open>\<open>float\<close> of a numeric token\<close>

text \<open>Every raise of the modelled code is a value of this type.\<close>

datatype error = KeyError string | ValueError string | ServiceError string

text \<open>
  A non-negative IEEE 754 double: a finite value, kept as the rational it denotes, or
  \<open>inf\<close>. \<open>round_to_double\<close> is the correctly rounded conversion that \<open>float\<close> applies to a
  decimal string (round to nearest, ties to even, 53 significant bits, subnormals below
  \<open>2^-1022\<close>, overflow to \<open>inf\<close>); the tokens carry no sign.
\<close>

datatype pyfloat = Finite rat | Infinity

function bit_length :: "int \<Rightarrow> nat" where
  "bit_length n = (if n \<le> 0 then 0 else Suc (bit_length (n div 2)))"
  by pat_completeness auto

termination
  by (relation "measure nat") auto

declare bit_length.simps [simp del]

definition binary_exponent :: "rat \<Rightarrow> int" where
  "binary_exponent x =
     (if 1 \<le> x then int (bit_length \<lfloor>x\<rfloor>) - 1
      else - int (bit_length (\<lceil>1 / x\<rceil> - 1)))"

definition pow2 :: "int \<Rightarrow> rat" where
  "pow2 k = (if 0 \<le> k then 2 ^ nat k else 1 / 2 ^ nat (- k))"

definition round_half_even :: "rat \<Rightarrow> int" where
  "round_half_even x =
     (let f = \<lfloor>x\<rfloor>; r = x - of_int f
      in if r < 1 / 2 then f else if 1 / 2 < r then f + 1
         else if even f then f else f + 1)"

definition round_to_double :: "rat \<Rightarrow> pyfloat" where
  "round_to_double x =
     (if x = 0 then Finite 0
      else
        (let ulp = pow2 (max (binary_exponent x) (- 1022) - 52);
             r = of_int (round_half_even (x / ulp)) * ulp
         in if pow2 1024 \<le> r then Infinity else Finite r))"

text \<open>\<open>num_val < c\<close> and \<open>num_val > c\<close>.\<close>

fun float_less :: "pyfloat \<Rightarrow> rat \<Rightarrow> bool" where
  "float_less (Finite r) c = (r < c)"
| "float_less Infinity c = False"

fun float_greater :: "pyfloat \<Rightarrow> rat \<Rightarrow> bool" where
  "float_greater (Finite r) c = (c < r)"
| "float_greater Infinity c = True"

definition digit_val :: "char \<Rightarrow> int" where
  "digit_val c = (of_char c :: int) - 48"

definition int_of_digits :: "string \<Rightarrow> int" where
  "int_of_digits ds = foldl (\<lambda>n c. 10 * n + digit_val c) 0 ds"

text \<open>
  \<open>float(s)\<close> on the strings a token with its commas removed can be: digits, optionally a
  point and digits, with at least one digit; the empty string raises \<open>ValueError\<close>. The
  other spellings \<open>float\<close> accepts (sign, exponent, blanks, underscores, \<open>inf\<close>, \<open>nan\<close>)
  cannot come out of the token pattern and are answered \<open>ValueError\<close> here.
\<close>

definition py_float :: "string \<Rightarrow> error + pyfloat" where
  "py_float s =
     (let int_part = takeWhile isdigit s; rest = dropWhile isdigit s
      in case rest of
           [] \<Rightarrow>
             if int_part = [] then Inl (ValueError ''could not convert string to float'')
             else Inr (round_to_double (of_int (int_of_digits int_part)))
         | c # frac_part \<Rightarrow>
             if c = CHR ''.'' \<and> list_all isdigit frac_part \<and> (int_part \<noteq> [] \<or> frac_part \<noteq> [])
             then Inr (round_to_double
                    (of_int (int_of_digits int_part) +
                     of_int (int_of_digits frac_part) / 10 ^ length frac_part))
             else Inl (ValueError ''could not convert string to float''))"

text \<open>\<open>number.replace(',', '')\<close>.\<close>

definition remove_commas :: "string \<Rightarrow> string" where
  "remove_commas number = filter (\<lambda>c. c \<noteq> CHR '','') number"

subsection \<open>Answer validation\<close>

text \<open>
  The loop of \<open>GuardrailsChecker._contains_specific_numbers\<close> over the tokens of the
  answer: the first token that is not a substring of the source text and whose value is
  neither below 100 nor above 2030 returns \<open>True\<close>; a token whose value is below 100 or
  above 2030, or that has no value, is passed over.
\<close>

fun check_numbers :: "string \<Rightarrow> string list \<Rightarrow> bool" where
  "check_numbers source_content [] = False"
| "check_numbers source_content (number # numbers) =
     (if \<not> str_contains source_content number then
        (case py_float (remove_commas number) of
           Inr num_val \<Rightarrow>
             if float_less num_val 100 \<or> float_greater num_val 2030
             then check_numbers source_content numbers
             else True
         | Inl e \<Rightarrow> check_numbers source_content numbers)
      else check_numbers source_content numbers)"

definition contains_specific_numbers :: "string \<Rightarrow> string \<Rightarrow> bool" where
  "contains_specific_numbers answer source_content =
     (let answer_numbers = re_findall_numbers answer
      in if answer_numbers = [] then False
         else check_numbers source_content answer_numbers)"

text \<open>The rupee sign of the indicator list is its three UTF-8 bytes.\<close>

definition fabrication_indicators :: "string list" where
  "fabrication_indicators =
     [''approximately'', ''around'', ''roughly'', ''about $'',
      [CHR 0xE2, CHR 0x82, CHR 0xB9],
      ''starting from'', ''priced at'', ''costs'', ''estimated'',
      ''likely'', ''probably'', ''might be'', ''could be'']"

section \<open>Documents and responses (\<open>models\<close>)\<close>

text \<open>
  A langchain \<open>Document\<close>: the text and the metadata dictionary, an association list in
  insertion order.
\<close>

record document =
  page_content :: string
  metadata :: "(string \<times> string) list"

record citation =
  source :: string
  doc_id :: string
  chunk_id :: string

text \<open>\<open>AnswerResponse\<close>; its fields carry the prefix \<open>response_\<close>.\<close>

record answer_response =
  response_answer :: string
  response_status :: string
  response_citations :: "citation list"

text \<open>\<open>GuardrailsChecker.validate_answer\<close>.\<close>

definition validate_answer :: "string \<Rightarrow> document list \<Rightarrow> bool" where
  "validate_answer answer sources =
     (if sources = [] then False
      else
        (let source_content = lower (join '' '' (map page_content sources));
             answer_lower = lower answer;
             fabrication_found =
               filter (\<lambda>indicator. str_contains answer_lower indicator \<and>
                                    \<not> str_contains source_content indicator)
                 fabrication_indicators
         in if fabrication_found \<noteq> [] then False
            else if contains_specific_numbers answer source_content then False
            else True))"

section \<open>The pipeline (\<open>pipeline/rag_pipeline.py\<close>)\<close>

text \<open>\<open>RAGState\<close>, the dictionary the graph threads through its nodes.\<close>

record rag_state =
  question :: string
  retrieved_facts :: "document list"
  retrieved_external :: "document list"
  answer :: string
  citations :: "citation list"
  status :: string
  needs_external :: bool
  is_sensitive :: bool

text \<open>
  A FAISS vector store is the list of the documents it holds. The two stores of the
  \<open>DocumentProcessor\<close> are \<open>None\<close> until they are built.
\<close>

type_synonym vectorstore = "document list"

record document_processor =
  facts_vectorstore :: "vectorstore option"
  external_vectorstore :: "vectorstore option"

text \<open>
  The pipeline object. The two services it calls are fields: \<open>similarity_search\<close> is
  \<open>store.similarity_search(question, k=k)\<close> and \<open>llm_invoke\<close> is
  \<open>self.llm.invoke(prompt).content\<close>; either may raise, and neither is constrained.
\<close>

record pipeline =
  similarity_search :: "vectorstore \<Rightarrow> string \<Rightarrow> nat \<Rightarrow> error + document list"
  llm_invoke :: "string \<Rightarrow> error + string"
  doc_processor :: document_processor
  vectorstores_ready :: bool

text \<open>
  The calls a run makes on the services, in order. A node returns the calls it made and
  either the exception it raised or the state it returns.
\<close>

datatype call = FactsSearch string nat | ExternalSearch string nat | LlmInvoke string

type_synonym 'a outcome = "call list \<times> (error + 'a)"

text \<open>\<open>RAGPipeline._retrieve_facts\<close>.\<close>

definition retrieve_facts :: "pipeline \<Rightarrow> rag_state \<Rightarrow> rag_state outcome" where
  "retrieve_facts p state =
     (case facts_vectorstore (doc_processor p) of
        Some store \<Rightarrow>
          ([FactsSearch (question state) top_k_retrieval],
           case similarity_search p store (question state) top_k_retrieval of
             Inl e \<Rightarrow> Inl e
           | Inr docs \<Rightarrow>
               Inr (if docs \<noteq> [] \<and> list_ex (\<lambda>doc. 50 < length (strip (page_content doc))) docs
                    then state\<lparr>retrieved_facts := docs, needs_external := False\<rparr>
                    else state\<lparr>retrieved_facts := docs, needs_external := True\<rparr>))
      | None \<Rightarrow> ([], Inr (state\<lparr>retrieved_facts := [], needs_external := True\<rparr>)))"

text \<open>\<open>RAGPipeline._check_sensitivity\<close>.\<close>

definition check_sensitivity :: "pipeline \<Rightarrow> rag_state \<Rightarrow> rag_state outcome" where
  "check_sensitivity p state =
     ([], Inr (state\<lparr>is_sensitive := is_sensitive_question (question state)\<rparr>))"

text \<open>\<open>RAGPipeline._retrieve_external\<close>.\<close>

definition retrieve_external :: "pipeline \<Rightarrow> rag_state \<Rightarrow> rag_state outcome" where
  "retrieve_external p state =
     (if needs_external state \<and> \<not> is_sensitive state then
        (case external_vectorstore (doc_processor p) of
           Some store \<Rightarrow>
             ([ExternalSearch (question state) top_k_retrieval],
              case similarity_search p store (question state) top_k_retrieval of
                Inl e \<Rightarrow> Inl e
              | Inr docs \<Rightarrow> Inr (state\<lparr>retrieved_external := docs\<rparr>))
         | None \<Rightarrow> ([], Inr (state\<lparr>retrieved_external := []\<rparr>)))
      else ([], Inr (state\<lparr>retrieved_external := []\<rparr>)))"

text \<open>\<open>doc.metadata[key]\<close>, which raises \<open>KeyError\<close> on a missing key.\<close>

definition metadata_get :: "document \<Rightarrow> string \<Rightarrow> error + string" where
  "metadata_get doc key =
     (case map_of (metadata doc) key of None \<Rightarrow> Inl (KeyError key) | Some v \<Rightarrow> Inr v)"

text \<open>\<open>RAGPipeline._extract_citations\<close>.\<close>

fun extract_citations :: "document list \<Rightarrow> error + citation list" where
  "extract_citations [] = Inr []"
| "extract_citations (doc # docs) =
     (case metadata_get doc ''source'' of Inl e \<Rightarrow> Inl e | Inr s \<Rightarrow>
      case metadata_get doc ''doc_id'' of Inl e \<Rightarrow> Inl e | Inr d \<Rightarrow>
      case metadata_get doc ''chunk_id'' of Inl e \<Rightarrow> Inl e | Inr c \<Rightarrow>
      case extract_citations docs of Inl e \<Rightarrow> Inl e
      | Inr cs \<Rightarrow> Inr (\<lparr>source = s, doc_id = d, chunk_id = c\<rparr> # cs))"

text \<open>The entries of the context of \<open>RAGPipeline._generate_llm_response\<close>, one per source.\<close>

definition newline :: string where
  "newline = [CHR 0x0A]"

fun context_entries :: "document list \<Rightarrow> error + string list" where
  "context_entries [] = Inr []"
| "context_entries (doc # docs) =
     (case metadata_get doc ''source'' of Inl e \<Rightarrow> Inl e | Inr s \<Rightarrow>
      case metadata_get doc ''doc_id'' of Inl e \<Rightarrow> Inl e | Inr d \<Rightarrow>
      case metadata_get doc ''chunk_id'' of Inl e \<Rightarrow> Inl e | Inr c \<Rightarrow>
      case context_entries docs of Inl e \<Rightarrow> Inl e
      | Inr es \<Rightarrow>
          Inr ((''Source: '' @ s @ '' | Doc: '' @ d @ '' | Chunk: '' @ c @ newline @
                page_content doc) # es))"

definition prompt_format :: "string \<Rightarrow> string \<Rightarrow> string" where
  "prompt_format context_text question_text =
     ''You are a helpful assistant answering questions about BYD Seal vehicles. '' @ newline @
     newline @
     ''STRICT RULES:'' @ newline @
     ''1. Only use the provided context to answer'' @ newline @
     ''2. Never make up or hallucinate information'' @ newline @
     ''3. If context doesn't contain the answer, say so'' @ newline @
     ''4. Cite sources for each claim using [source:doc_id:chunk_id] format'' @ newline @
     ''5. Be concise and accurate'' @ newline @
     newline @
     ''Context:'' @ newline @
     context_text @ newline @
     newline @
     ''Question: '' @ question_text @ newline @
     newline @
     ''Answer:''"

text \<open>\<open>RAGPipeline._generate_llm_response\<close>.\<close>

definition generate_llm_response :: "pipeline \<Rightarrow> string \<Rightarrow> document list \<Rightarrow> string outcome" where
  "generate_llm_response p question_text sources =
     (case context_entries sources of
        Inl e \<Rightarrow> ([], Inl e)
      | Inr entries \<Rightarrow>
          (let prompt = prompt_format (join (newline @ newline) entries) question_text
           in ([LlmInvoke prompt], llm_invoke p prompt)))"

text \<open>
  \<open>RAGPipeline._generate_answer\<close>. Whatever is raised inside the \<open>try\<close> (building the
  prompt, the model call, extracting the citations) ends in the status \<open>error\<close>.
\<close>

definition error_state :: "rag_state \<Rightarrow> rag_state" where
  "error_state state =
     state\<lparr>answer := ''I encountered an error while processing your question.'',
           status := ''error'', citations := []\<rparr>"

definition generate_answer :: "pipeline \<Rightarrow> rag_state \<Rightarrow> rag_state outcome" where
  "generate_answer p state =
     (let facts = retrieved_facts state;
          external = retrieved_external state;
          all_sources = facts @ external
      in if all_sources = [] then
           ([], Inr (state\<lparr>answer := get_refusal_message ''insufficient_info'',
                          status := ''insufficient_info'', citations := []\<rparr>))
         else if should_refuse_sensitive (is_sensitive state) (facts \<noteq> []) then
           ([], Inr (state\<lparr>answer := get_refusal_message ''sensitive'',
                          status := ''refused_sensitive'', citations := []\<rparr>))
         else
           (case generate_llm_response p (question state) all_sources of
              (calls, Inl e) \<Rightarrow> (calls, Inr (error_state state))
            | (calls, Inr text) \<Rightarrow>
                if validate_answer text all_sources then
                  (case extract_citations all_sources of
                     Inl e \<Rightarrow> (calls, Inr (error_state state))
                   | Inr cs \<Rightarrow>
                       (calls, Inr (state\<lparr>answer := text, status := ''answered'',
                                           citations := cs\<rparr>)))
                else
                  (calls, Inr (state\<lparr>answer := get_refusal_message ''validation_failed'',
                                      status := ''validation_failed'', citations := []\<rparr>))))"

text \<open>
  The compiled graph: the four nodes in the order of its edges, each on the state the
  previous one returned; an exception of a node ends the run.
\<close>

definition then_node ::
  "rag_state outcome \<Rightarrow> (rag_state \<Rightarrow> rag_state outcome) \<Rightarrow> rag_state outcome" where
  "then_node r node =
     (case r of
        (calls, Inl e) \<Rightarrow> (calls, Inl e)
      | (calls, Inr state) \<Rightarrow> (case node state of (calls', r') \<Rightarrow> (calls @ calls', r')))"

definition graph_invoke :: "pipeline \<Rightarrow> rag_state \<Rightarrow> rag_state outcome" where
  "graph_invoke p initial_state =
     then_node (then_node (then_node (retrieve_facts p initial_state)
       (check_sensitivity p)) (retrieve_external p)) (generate_answer p)"

text \<open>\<open>RAGPipeline.ask\<close>, and the state it starts the graph on.\<close>

definition initial_state :: "string \<Rightarrow> rag_state" where
  "initial_state question_text =
     \<lparr>question = question_text, retrieved_facts = [], retrieved_external = [],
      answer = [], citations = [], status = ''processing'',
      needs_external = False, is_sensitive = False\<rparr>"

definition ask :: "pipeline \<Rightarrow> string \<Rightarrow> answer_response outcome" where
  "ask p question_text =
     (if \<not> vectorstores_ready p then
        ([], Inr \<lparr>response_answer =
                    ''Vectorstores not initialized. Please call /embed endpoint first.'',
                  response_status = ''not_ready'', response_citations = []\<rparr>)
      else
        (case graph_invoke p (initial_state question_text) of
           (calls, Inl e) \<Rightarrow> (calls, Inl e)
         | (calls, Inr final_state) \<Rightarrow>
             (calls, Inr \<lparr>response_answer = answer final_state,
                          response_status = status final_state,
                          response_citations = citations final_state\<rparr>)))"

text \<open>Whether a call is a search of the supplemental index.\<close>

fun is_external_search :: "call \<Rightarrow> bool" where
  "is_external_search (ExternalSearch q k) = True"
| "is_external_search c = False"

section \<open>Sample inputs\<close>

text \<open>
  A pipeline whose index search returns the first \<open>k\<close> documents of the store and whose
  model always answers the same sentence, over the two given stores.
\<close>

definition seal_document :: document where
  "seal_document =
     \<lparr>page_content = ''The BYD Seal is a battery electric sedan built on the e-Platform 3.0.'',
      metadata = [(''source'', ''facts''), (''doc_id'', ''F1''), (''chunk_id'', ''c1'')]\<rparr>"

definition review_document :: document where
  "review_document =
     \<lparr>page_content = ''In this video we drive the Seal.'',
      metadata = [(''source'', ''external''), (''doc_id'', ''E1''), (''chunk_id'', ''c1'')]\<rparr>"

definition demo_pipeline :: "vectorstore option \<Rightarrow> vectorstore option \<Rightarrow> pipeline" where
  "demo_pipeline facts_store external_store =
     \<lparr>similarity_search = (\<lambda>store q k. Inr (take k store)),
      llm_invoke = (\<lambda>prompt. Inr ''The Seal is a sedan.''),
      doc_processor =
        \<lparr>facts_vectorstore = facts_store, external_vectorstore = external_store\<rparr>,
      vectorstores_ready = True\<rparr>"

definition sedan_document :: document where
  "sedan_document =
     \<lparr>page_content = ''An electric sedan'',
      metadata = [(''source'', ''facts''), (''doc_id'', ''F2''), (''chunk_id'', ''c2'')]\<rparr>"

section \<open>Document processing (\<open>processing/document_processor.py\<close>)\<close>

text \<open>The decimal numeral of a natural number, as an f-string prints it.\<close>

function str_nat :: "nat \<Rightarrow> string" where
  "str_nat n =
     (if n < 10 then [char_of (48 + n)]
      else str_nat (n div 10) @ [char_of (48 + n mod 10)])"
  by pat_completeness auto

termination
  by (relation "measure id") auto

declare str_nat.simps [simp del]

text \<open>
  A record of the supplemental JSON file, as far as the loader reads it:
  \<open>transcriptText_content\<close> is \<open>item['transcriptText']['content']\<close> when both keys are
  present, the other fields are the values of the keys of the same name when present.
\<close>

record item =
  transcriptText_content :: "string option"
  transcript :: "string option"
  video_id :: "string option"
  title :: "string option"
  brand :: "string option"
  product :: "string option"

text \<open>\<open>DocumentProcessor._extract_transcript_content\<close>.\<close>

definition extract_transcript_content :: "item \<Rightarrow> string" where
  "extract_transcript_content it =
     (case transcriptText_content it of
        Some c \<Rightarrow> c
      | None \<Rightarrow> (case transcript it of Some t \<Rightarrow> t | None \<Rightarrow> []))"

text \<open>
  The loop of \<open>DocumentProcessor._create_document_chunks\<close> over \<open>enumerate(texts)\<close>: a text
  whose stripped length exceeds 20 becomes a document whose \<open>chunk_id\<close> is \<open>c\<close> followed
  by its position \<open>j + 1\<close> among all the texts; any other text is skipped.
\<close>

fun chunk_documents :: "(string \<times> string) list \<Rightarrow> (nat \<times> string) list \<Rightarrow> document list" where
  "chunk_documents base_metadata [] = []"
| "chunk_documents base_metadata ((j, text) # rest) =
     (if 20 < length (strip text) then
        \<lparr>page_content = text,
         metadata = AList.update ''chunk_id'' (''c'' @ str_nat (j + 1)) base_metadata\<rparr> #
          chunk_documents base_metadata rest
      else chunk_documents base_metadata rest)"

text \<open>
  \<open>DocumentProcessor._create_document_chunks\<close>. The text splitter of langchain is not
  part of the repository: \<open>split_text\<close> is an argument.
\<close>

definition create_document_chunks ::
  "(string \<Rightarrow> string list) \<Rightarrow> string \<Rightarrow> (string \<times> string) list \<Rightarrow> document list" where
  "create_document_chunks split_text content base_metadata =
     (if chunk_size < length content then
        chunk_documents base_metadata (enumerate 0 (split_text content))
      else [\<lparr>page_content = content, metadata = base_metadata\<rparr>])"

definition facts_file :: string where "facts_file = ''data/byd_seal_facts.md''"
text \<open>\<open>config.external_file\<close>; the name itself is a keyword of Isabelle.\<close>

definition external_file_path :: string where
  "external_file_path = ''data/byd_seal_external.json''"

text \<open>The loop of \<open>DocumentProcessor.load_external\<close> over \<open>enumerate(data)\<close>.\<close>

definition get_default :: "string option \<Rightarrow> string" where
  "get_default v = (case v of Some s \<Rightarrow> s | None \<Rightarrow> [])"

fun external_documents ::
  "(string \<Rightarrow> string list) \<Rightarrow> string \<Rightarrow> (nat \<times> item) list \<Rightarrow> document list" where
  "external_documents split_text file_path [] = []"
| "external_documents split_text file_path ((i, it) # rest) =
     (let transcript_content = extract_transcript_content it
      in if transcript_content = [] \<or> length (strip transcript_content) < 20
         then external_documents split_text file_path rest
         else
           create_document_chunks split_text transcript_content
             [(''source'', ''external''), (''doc_id'', ''E'' @ str_nat (i + 1)),
              (''chunk_id'', ''c1''), (''file_path'', file_path),
              (''video_id'', get_default (video_id it)), (''title'', get_default (title it)),
              (''brand'', get_default (brand it)), (''product'', get_default (product it))] @
           external_documents split_text file_path rest)"

text \<open>
  What opening and parsing the supplemental file gives: no file, a file that does not
  parse, or the list of its records.
\<close>

datatype external_source = NoFile | BadFile | Records "item list"

text \<open>\<open>DocumentProcessor.load_external\<close>: any exception gives the empty list.\<close>

definition load_external ::
  "(string \<Rightarrow> string list) \<Rightarrow> string \<Rightarrow> external_source \<Rightarrow> document list" where
  "load_external split_text file_path src =
     (case src of
        Records data \<Rightarrow> external_documents split_text file_path (enumerate 0 data)
      | _ \<Rightarrow> [])"

text \<open>\<open>DocumentProcessor.load_facts\<close>; the file content is \<open>None\<close> when reading it raises.\<close>

definition facts_documents :: "string \<Rightarrow> (nat \<times> string) list \<Rightarrow> document list" where
  "facts_documents file_path texts =
     map (\<lambda>(i, text).
           \<lparr>page_content = text,
            metadata = [(''source'', ''facts''), (''doc_id'', ''F'' @ str_nat (i + 1)),
                        (''chunk_id'', ''c'' @ str_nat (i + 1)), (''file_path'', file_path)]\<rparr>)
       texts"

definition load_facts ::
  "(string \<Rightarrow> string list) \<Rightarrow> string \<Rightarrow> string option \<Rightarrow> document list" where
  "load_facts split_text file_path file_content =
     (case file_content of
        Some content \<Rightarrow> facts_documents file_path (enumerate 0 (split_text content))
      | None \<Rightarrow> [])"

subsection \<open>Building an index in batches\<close>

text \<open>
  What a build does to the outside, in order: the construction of an index from a batch,
  the insertion of a batch, a pause.
\<close>

datatype build_event =
  FromDocuments "document list" | AddTexts "document list" | Sleep rat

text \<open>
  The loop of \<open>DocumentProcessor._create_vectorstore_batched\<close> over
  \<open>range(0, len(remaining_docs), batch_size)\<close>. Whether the embedding service fails on a
  batch is not decided by the code: \<open>fails n\<close> tells whether the call for batch \<open>n\<close> raises,
  the batches numbered as the code logs them (1 the initial batch, \<open>i // batch_size + 2\<close>
  the batch at \<open>i\<close>). An insertion that raises leaves the index as it was. The step
  \<open>bs\<close> is positive whenever the loop is reached.
\<close>

function add_batches ::
  "(nat \<Rightarrow> bool) \<Rightarrow> nat \<Rightarrow> document list \<Rightarrow> nat \<Rightarrow> vectorstore \<Rightarrow>
     build_event list \<times> vectorstore" where
  "add_batches fails bs remaining_docs i store =
     (if i < length remaining_docs \<and> 0 < bs then
        (let batch = take bs (drop i remaining_docs)
         in if fails (i div bs + 2) then
              (case add_batches fails bs remaining_docs (i + bs) store of
                 (events, store') \<Rightarrow>
                   (AddTexts batch # Sleep (retry_delay * 2) # events, store'))
            else
              (case add_batches fails bs remaining_docs (i + bs) (store @ batch) of
                 (events, store') \<Rightarrow>
                   (AddTexts batch #
                      (if i + bs < length remaining_docs then [Sleep retry_delay] else []) @
                      events,
                    store')))
      else ([], store))"
  by pat_completeness auto

termination
  by (relation "measure (\<lambda>(fails, bs, remaining_docs, i, store). length remaining_docs - i)")
     auto

declare add_batches.simps [simp del]

text \<open>
  \<open>DocumentProcessor._create_vectorstore_batched\<close>: \<open>None\<close> for no documents and when
  the construction from the first batch raises.
\<close>

definition create_vectorstore_batched ::
  "(nat \<Rightarrow> bool) \<Rightarrow> document list \<Rightarrow> build_event list \<times> vectorstore option" where
  "create_vectorstore_batched fails documents =
     (if documents = [] then ([], None)
      else
        (let bs = min batch_size (length documents);
             first_batch = take bs documents
         in if fails 1 then ([FromDocuments first_batch], None)
            else
              (case add_batches fails bs (drop bs documents) 0 first_batch of
                 (events, store) \<Rightarrow> (FromDocuments first_batch # events, Some store))))"




text \<open>A list of \<open>n\<close> numbered passages.\<close>

definition numbered_documents :: "nat \<Rightarrow> document list" where
  "numbered_documents n =
     map (\<lambda>i. \<lparr>page_content = ''Passage '' @ str_nat i, metadata = []\<rparr>) [0..<n]"

subsection \<open>Building and caching the two indexes\<close>

text \<open>
  What the build finds outside the process. A cache directory is missing, holds a saved
  index that \<open>FAISS.load_local\<close> restores, or exists and cannot be restored. The two
  source files are given by what reading them yields, the text splitter by the function
  it computes. Whether the embedding service fails during a build, and whether saving
  an index fails, is not decided by the code and is part of the world too. A save that
  fails leaves the cache as it was; creating the cache directory succeeds.
\<close>

datatype cache_entry = Missing | Stored vectorstore | Unreadable

record world =
  facts_cache :: cache_entry
  external_cache :: cache_entry
  facts_file_content :: "string option"
  external_file_content :: external_source
  text_splitter :: "string \<Rightarrow> string list"
  facts_embedding_fails :: bool
  external_embedding_fails :: "nat \<Rightarrow> bool"
  facts_save_fails :: bool
  external_save_fails :: bool

text \<open>\<open>DocumentProcessor._load_from_cache\<close>.\<close>

definition load_from_cache :: "world \<Rightarrow> document_processor \<Rightarrow> document_processor" where
  "load_from_cache w dp =
     (let dp1 = (case facts_cache w of
                   Missing \<Rightarrow> dp
                 | Stored s \<Rightarrow> dp\<lparr>facts_vectorstore := Some s\<rparr>
                 | Unreadable \<Rightarrow> dp\<lparr>facts_vectorstore := None\<rparr>)
      in case external_cache w of
           Missing \<Rightarrow> dp1
         | Stored s \<Rightarrow> dp1\<lparr>external_vectorstore := Some s\<rparr>
         | Unreadable \<Rightarrow> dp1\<lparr>external_vectorstore := None\<rparr>)"

text \<open>
  \<open>DocumentProcessor._save_to_cache\<close>: the exception of a failing save is caught after
  it has skipped what follows it in the \<open>try\<close>.
\<close>

definition save_to_cache :: "world \<Rightarrow> document_processor \<Rightarrow> world" where
  "save_to_cache w dp =
     (case facts_vectorstore dp of
        Some fs \<Rightarrow>
          if facts_save_fails w then w
          else
            (case external_vectorstore dp of
               Some es \<Rightarrow>
                 if external_save_fails w then w\<lparr>facts_cache := Stored fs\<rparr>
                 else w\<lparr>facts_cache := Stored fs, external_cache := Stored es\<rparr>
             | None \<Rightarrow> w\<lparr>facts_cache := Stored fs\<rparr>)
      | None \<Rightarrow>
          (case external_vectorstore dp of
             Some es \<Rightarrow>
               if external_save_fails w then w else w\<lparr>external_cache := Stored es\<rparr>
           | None \<Rightarrow> w))"

text \<open>\<open>DocumentProcessor._create_vectorstores_from_scratch\<close>.\<close>

definition create_vectorstores_from_scratch ::
  "world \<Rightarrow> document_processor \<Rightarrow> build_event list \<times> (error + document_processor)" where
  "create_vectorstores_from_scratch w dp =
     (let facts_docs = load_facts (text_splitter w) facts_file (facts_file_content w);
          external_docs =
            load_external (text_splitter w) external_file_path (external_file_content w)
      in if facts_docs = [] then ([], Inl (ValueError ''No facts documents loaded''))
         else if facts_embedding_fails w then
           ([FromDocuments facts_docs], Inl (ServiceError ''embedding''))
         else if external_docs \<noteq> [] then
           (case create_vectorstore_batched (external_embedding_fails w) external_docs of
              (events, store) \<Rightarrow>
                (FromDocuments facts_docs # events,
                 Inr (dp\<lparr>facts_vectorstore := Some facts_docs,
                         external_vectorstore := store\<rparr>)))
         else ([FromDocuments facts_docs], Inr (dp\<lparr>facts_vectorstore := Some facts_docs\<rparr>)))"

text \<open>
  \<open>DocumentProcessor.create_vectorstores\<close>: the events of the build, the exception it
  raises if any, and the processor and the world it leaves.
\<close>

definition create_vectorstores ::
  "world \<Rightarrow> document_processor \<Rightarrow>
     build_event list \<times> error option \<times> document_processor \<times> world" where
  "create_vectorstores w dp =
     (let dp1 = load_from_cache w dp
      in if facts_vectorstore dp1 = None then
           (case create_vectorstores_from_scratch w dp1 of
              (events, Inl e) \<Rightarrow> (events, Some e, dp1, w)
            | (events, Inr dp2) \<Rightarrow> (events, None, dp2, save_to_cache w dp2))
         else if external_vectorstore dp1 = None \<and> external_file_content w \<noteq> NoFile then
           (let external_docs =
                  load_external (text_splitter w) external_file_path (external_file_content w)
            in if external_docs \<noteq> [] then
                 (case create_vectorstore_batched (external_embedding_fails w) external_docs of
                    (events, store) \<Rightarrow>
                      (events, None, dp1\<lparr>external_vectorstore := store\<rparr>,
                       save_to_cache w (dp1\<lparr>external_vectorstore := store\<rparr>)))
               else ([], None, dp1, save_to_cache w dp1))
         else ([], None, dp1, save_to_cache w dp1))"

text \<open>\<open>RAGPipeline.initialize_vectorstores\<close>.\<close>

definition initialize_vectorstores ::
  "world \<Rightarrow> pipeline \<Rightarrow> build_event list \<times> error option \<times> pipeline \<times> world" where
  "initialize_vectorstores w p =
     (case create_vectorstores w (doc_processor p) of
        (events, Some e, dp, w') \<Rightarrow> (events, Some e, p\<lparr>doc_processor := dp\<rparr>, w')
      | (events, None, dp, w') \<Rightarrow>
          (events, None, p\<lparr>doc_processor := dp, vectorstores_ready := True\<rparr>, w'))"







section \<open>Facts about strings\<close>

lemma startswith_prefix: "startswith s p \<longleftrightarrow> prefix p s"
  by (induction s p rule: startswith.induct) auto

lemma str_contains_sublist: "str_contains s sub \<longleftrightarrow> sublist sub s"
  by (induction s) (auto simp: startswith_prefix sublist_Cons_right)

lemma str_contains_iff: "str_contains s sub \<longleftrightarrow> (\<exists>pre post. s = pre @ sub @ post)"
  by (simp add: str_contains_sublist sublist_def)



lemma lower_append: "lower (s @ t) = lower s @ lower t"
  by (simp add: lower_def)

section \<open>Facts about the guardrails and the pipeline\<close>


lemma str_contains_lower: "str_contains s t \<Longrightarrow> str_contains (lower s) (lower t)"
proof -
  assume "str_contains s t"
  then obtain pre post where "s = pre @ t @ post" by (auto simp: str_contains_iff)
  then have "lower s = lower pre @ lower t @ lower post" by (simp add: lower_append)
  then show ?thesis unfolding str_contains_iff by blast
qed



lemma price_is_sensitive:
  assumes "str_contains q ''price''"
  shows "is_sensitive_question q"
proof -
  have "str_contains (lower q) (lower ''price'')" using assms by (rule str_contains_lower)
  moreover have "lower ''price'' = ''price''" by (simp add: lower_def lower_char_def)
  ultimately show ?thesis
    by (simp add: is_sensitive_question_def is_sensitive_question_of_def sensitive_topics_def)
qed

lemma generate_answer_returns:
  "\<exists>calls state'. generate_answer p state = (calls, Inr state')"
  by (auto simp: generate_answer_def Let_def split: prod.splits sum.splits)

lemma generate_answer_status:
  assumes "generate_answer p state = (calls, Inr state')"
  shows "status state' \<in> {''answered'', ''refused_sensitive'', ''insufficient_info'',
           ''validation_failed'', ''error''}"
    and "status state' \<noteq> ''answered'' \<Longrightarrow> citations state' = []"
    and "status state' = ''refused_sensitive'' \<Longrightarrow>
           is_sensitive state \<and> retrieved_facts state = [] \<and> retrieved_external state \<noteq> []"
  using assms
  by (auto simp: generate_answer_def Let_def error_state_def should_refuse_sensitive_def
      split: prod.splits sum.splits if_splits)

lemma retrieve_external_result:
  assumes "retrieve_external p state = (calls, Inr state')"
  shows "is_sensitive state' = is_sensitive state"
    and "retrieved_facts state' = retrieved_facts state"
    and "is_sensitive state \<Longrightarrow> retrieved_external state' = []"
  using assms
  by (auto simp: retrieve_external_def split: if_splits option.splits sum.splits)

lemma graph_invoke_stages:
  assumes "graph_invoke p s0 = (calls, Inr sf)"
  obtains c1 s1 s2 c3 s3 c4 where
    "retrieve_facts p s0 = (c1, Inr s1)"
    "check_sensitivity p s1 = ([], Inr s2)"
    "retrieve_external p s2 = (c3, Inr s3)"
    "generate_answer p s3 = (c4, Inr sf)"
    "calls = c1 @ c3 @ c4"
  using assms
  by (auto simp: graph_invoke_def then_node_def check_sensitivity_def
      split: prod.splits sum.splits)

lemma graph_invoke_status:
  assumes "graph_invoke p s0 = (calls, Inr sf)"
  shows "status sf \<in> {''answered'', ''insufficient_info'', ''validation_failed'', ''error''}"
    and "status sf \<noteq> ''answered'' \<Longrightarrow> citations sf = []"
proof -
  from assms obtain c1 s1 s2 c3 s3 c4 where
    st: "retrieve_external p s2 = (c3, Inr s3)" "generate_answer p s3 = (c4, Inr sf)"
    by (rule graph_invoke_stages)
  have "status sf \<noteq> ''refused_sensitive''"
  proof
    assume "status sf = ''refused_sensitive''"
    with generate_answer_status(3) [OF st(2)]
    have "is_sensitive s3" "retrieved_external s3 \<noteq> []" by simp_all
    with retrieve_external_result [OF st(1)] show False by simp
  qed
  with generate_answer_status(1) [OF st(2)]
  show "status sf \<in> {''answered'', ''insufficient_info'', ''validation_failed'', ''error''}"
    by auto
  show "status sf \<noteq> ''answered'' \<Longrightarrow> citations sf = []"
    by (rule generate_answer_status(2) [OF st(2)])
qed

lemma ask_cases:
  assumes "ask p q = (calls, Inr r)"
  obtains (not_ready) "\<not> vectorstores_ready p" "response_status r = ''not_ready''"
      "response_citations r = []" "calls = []"
  | (ran) sf where "vectorstores_ready p"
      "graph_invoke p (initial_state q) = (calls, Inr sf)"
      "response_status r = status sf" "response_citations r = citations sf"
  using assms
  by (auto simp: ask_def split: if_splits prod.splits sum.splits)

lemma demo_price_run:
  "ask (demo_pipeline (Some []) (Some [review_document])) ''What is the price of the Seal?'' =
     ([FactsSearch ''What is the price of the Seal?'' top_k_retrieval],
      Inr \<lparr>response_answer = get_refusal_message ''insufficient_info'',
           response_status = ''insufficient_info'', response_citations = []\<rparr>)"
proof -
  have "str_contains ''What is the price of the Seal?'' ''price''" by simp
  then have "is_sensitive_question ''What is the price of the Seal?''"
    by (rule price_is_sensitive)
  then show ?thesis
    by (simp add: ask_def graph_invoke_def then_node_def retrieve_facts_def
        check_sensitivity_def retrieve_external_def generate_answer_def Let_def
        demo_pipeline_def initial_state_def)
qed

section \<open>The claims about the pipeline\<close>

text \<open>
  C1. The specification has a question that contains \<open>price\<close> and for which the facts
  index returns no passages end with status \<open>refused_sensitive\<close> and no citations. The
  code does not: the facts are empty, so the supplemental search is needed, the question
  is sensitive, so it is not made; the combined list is empty and the first test of
  \<open>_generate_answer\<close> returns \<open>insufficient_info\<close> before the sensitive refusal is
  looked at. The run makes the one facts search and ends with status
  \<open>insufficient_info\<close>, the insufficient-information message and no citations.
\<close>

theorem price_question_without_facts:
  assumes "vectorstores_ready p"
    and "str_contains q ''price''"
    and "facts_vectorstore (doc_processor p) = Some store"
    and "similarity_search p store q top_k_retrieval = Inr []"
  shows "ask p q =
           ([FactsSearch q top_k_retrieval],
            Inr \<lparr>response_answer = get_refusal_message ''insufficient_info'',
                 response_status = ''insufficient_info'', response_citations = []\<rparr>)"
  using assms price_is_sensitive [OF assms(2)]
  by (simp add: ask_def graph_invoke_def then_node_def retrieve_facts_def
      check_sensitivity_def retrieve_external_def generate_answer_def Let_def
      initial_state_def)

theorem price_question_without_facts_witness:
  "ask (demo_pipeline (Some []) (Some [review_document])) ''What is the price of the Seal?'' =
     ([FactsSearch ''What is the price of the Seal?'' top_k_retrieval],
      Inr \<lparr>response_answer = get_refusal_message ''insufficient_info'',
           response_status = ''insufficient_info'', response_citations = []\<rparr>)"
proof -
  have "str_contains ''What is the price of the Seal?'' ''price''" by simp
  then show ?thesis
    by (intro price_question_without_facts [where store = "[]"])
       (simp_all add: demo_pipeline_def)
qed

text \<open>
  C2. No run of \<open>ask\<close> that returns a response returns the status \<open>refused_sensitive\<close>,
  whatever the question and whatever the two searches and the model return: the refusal
  needs a sensitive question, no facts and a non-empty combined list, and a sensitive
  question leaves the supplemental list empty.
\<close>

theorem ask_never_refused_sensitive:
  assumes "ask p q = (calls, Inr r)"
  shows "response_status r \<noteq> ''refused_sensitive''"
  using assms
proof (cases rule: ask_cases)
  case not_ready
  then show ?thesis by simp
next
  case (ran sf)
  with graph_invoke_status(1) [OF ran(2)] show ?thesis by auto
qed

theorem ask_never_refused_sensitive_witness:
  "\<exists>calls r.
     ask (demo_pipeline (Some []) (Some [review_document])) ''What is the price of the Seal?'' =
       (calls, Inr r) \<and>
     response_status r \<noteq> ''refused_sensitive''"
  using ask_never_refused_sensitive [OF demo_price_run] demo_price_run by blast

text \<open>
  C10. Every response \<open>ask\<close> returns has one of the six terminal statuses (the initial
  \<open>processing\<close> is not among them), and its citations are empty unless the status is
  \<open>answered\<close>.
\<close>

theorem ask_status_invariant:
  assumes "ask p q = (calls, Inr r)"
  shows "response_status r \<in> {''answered'', ''refused_sensitive'', ''insufficient_info'',
           ''validation_failed'', ''error'', ''not_ready''} \<and>
         (response_status r \<noteq> ''answered'' \<longrightarrow> response_citations r = [])"
  using assms
proof (cases rule: ask_cases)
  case not_ready
  then show ?thesis by simp
next
  case (ran sf)
  with graph_invoke_status [OF ran(2)] show ?thesis by auto
qed

lemma demo_answered_run:
  "snd (ask (demo_pipeline (Some [seal_document]) (Some [review_document])) ''What is the Seal?'') =
     Inr \<lparr>response_answer = ''The Seal is a sedan.'', response_status = ''answered'',
        response_citations = [\<lparr>source = ''facts'', doc_id = ''F1'', chunk_id = ''c1''\<rparr>]\<rparr>"
  by code_simp

theorem ask_status_invariant_witness:
  "\<exists>calls r.
     ask (demo_pipeline (Some [seal_document]) (Some [review_document])) ''What is the Seal?'' =
       (calls, Inr r) \<and>
     response_status r \<in> {''answered'', ''refused_sensitive'', ''insufficient_info'',
       ''validation_failed'', ''error'', ''not_ready''} \<and>
     (response_status r \<noteq> ''answered'' \<longrightarrow> response_citations r = [])"
proof -
  let ?run = "ask (demo_pipeline (Some [seal_document]) (Some [review_document])) ''What is the Seal?''"
  let ?r = "\<lparr>response_answer = ''The Seal is a sedan.'', response_status = ''answered'',
        response_citations = [\<lparr>source = ''facts'', doc_id = ''F1'', chunk_id = ''c1''\<rparr>]\<rparr>"
  have run: "?run = (fst ?run, Inr ?r)"
    using demo_answered_run by (simp add: prod_eq_iff)
  from ask_status_invariant [OF run] run show ?thesis by blast
qed


lemma retrieve_facts_calls:
  "\<not> list_ex is_external_search (fst (retrieve_facts p state))"
  by (auto simp: retrieve_facts_def split: option.splits)









section \<open>The claims about the guardrails\<close>



section \<open>Facts about answer validation\<close>

lemma float_in_range_iff:
  "\<not> float_less v 100 \<and> \<not> float_greater v 2030 \<longleftrightarrow>
     (\<exists>r. v = Finite r \<and> 100 \<le> r \<and> r \<le> 2030)"
  by (cases v) auto

lemma check_numbers_iff:
  "check_numbers source_content numbers \<longleftrightarrow>
     (\<exists>number \<in> set numbers. \<not> str_contains source_content number \<and>
        (\<exists>r. py_float (remove_commas number) = Inr (Finite r) \<and> 100 \<le> r \<and> r \<le> 2030))"
proof (induction numbers)
  case Nil
  then show ?case by simp
next
  case (Cons number numbers)
  show ?case
  proof (cases "py_float (remove_commas number)")
    case (Inl e)
    with Cons show ?thesis by simp
  next
    case (Inr v)
    with Cons float_in_range_iff [of v] show ?thesis by auto
  qed
qed

lemma contains_specific_numbers_iff:
  "contains_specific_numbers a source_content \<longleftrightarrow>
     (\<exists>number \<in> set (re_findall_numbers a). \<not> str_contains source_content number \<and>
        (\<exists>r. py_float (remove_commas number) = Inr (Finite r) \<and> 100 \<le> r \<and> r \<le> 2030))"
  by (auto simp: contains_specific_numbers_def Let_def check_numbers_iff)

lemma validate_answer_iff:
  "validate_answer a sources \<longleftrightarrow>
     sources \<noteq> [] \<and>
     (\<forall>indicator \<in> set fabrication_indicators.
        str_contains (lower a) indicator \<longrightarrow>
        str_contains (lower (join '' '' (map page_content sources))) indicator) \<and>
     \<not> contains_specific_numbers a (lower (join '' '' (map page_content sources)))"
  by (auto simp: validate_answer_def Let_def filter_empty_conv)


lemma round_to_double_1500: "round_to_double 1500 = Finite 1500"
  by (simp add: round_to_double_def binary_exponent_def bit_length.simps pow2_def
      round_half_even_def Let_def)

lemma round_to_double_2021: "round_to_double 2021 = Finite 2021"
  by (simp add: round_to_double_def binary_exponent_def bit_length.simps pow2_def
      round_half_even_def Let_def)



lemma py_float_1500: "py_float (remove_commas ''1500'') = Inr (Finite 1500)"
  by (simp add: remove_commas_def py_float_def isdigit_def int_of_digits_def digit_val_def
      round_to_double_1500)

lemma py_float_2021: "py_float (remove_commas ''2021'') = Inr (Finite 2021)"
  by (simp add: remove_commas_def py_float_def isdigit_def int_of_digits_def digit_val_def
      round_to_double_2021)


lemma sedan_source_content:
  "lower (join '' '' (map page_content [sedan_document])) = ''an electric sedan''"
  "lower (page_content sedan_document) = ''an electric sedan''"
  by code_simp+


lemma sample_tokens:
  "re_findall_numbers ''5 seats and 45,000 fans'' = [''5'', ''45,000'']"
  "re_findall_numbers ''It has 1500 cells'' = [''1500'']"
  "re_findall_numbers ''Launched in 2021'' = [''2021'']"
  by code_simp+


section \<open>The claims about answer validation\<close>




text \<open>
  C4. An answer with the numeric token \<open>1500\<close> or \<open>2021\<close>, the token absent from the
  source text, fails validation. The specification has the answer with \<open>2021\<close> pass as a
  year; the code fails it, because it passes over the values below 100 and above 2030,
  not the years.
\<close>

theorem absent_token_in_range_fails_validation:
  assumes "number \<in> set (re_findall_numbers a)"
    and "number = ''1500'' \<or> number = ''2021''"
    and "\<not> str_contains (lower (join '' '' (map page_content sources))) number"
  shows "\<not> validate_answer a sources"
proof -
  from assms(2) have "\<exists>r. py_float (remove_commas number) = Inr (Finite r) \<and> 100 \<le> r \<and> r \<le> 2030"
    using py_float_2021 py_float_1500 by auto
  with assms(1,3) show ?thesis
    unfolding validate_answer_iff contains_specific_numbers_iff by blast
qed

theorem absent_token_in_range_fails_validation_witness:
  "''2021'' \<in> set (re_findall_numbers ''Launched in 2021'') \<and>
   \<not> str_contains (lower (join '' '' (map page_content [sedan_document]))) ''2021'' \<and>
   \<not> validate_answer ''Launched in 2021'' [sedan_document] \<and>
   ''1500'' \<in> set (re_findall_numbers ''It has 1500 cells'') \<and>
   \<not> str_contains (lower (join '' '' (map page_content [sedan_document]))) ''1500'' \<and>
   \<not> validate_answer ''It has 1500 cells'' [sedan_document]"
proof -
  have a: "''2021'' \<in> set (re_findall_numbers ''Launched in 2021'')"
    and b: "''1500'' \<in> set (re_findall_numbers ''It has 1500 cells'')"
    by (simp_all add: sample_tokens)
  have c: "\<not> str_contains (lower (join '' '' (map page_content [sedan_document]))) ''2021''"
    and d: "\<not> str_contains (lower (join '' '' (map page_content [sedan_document]))) ''1500''"
    by (simp_all add: sedan_source_content)
  from absent_token_in_range_fails_validation [OF a _ c]
       absent_token_in_range_fails_validation [OF b _ d] a b c d
  show ?thesis by blast
qed

section \<open>Facts about document processing\<close>




section \<open>The claims about document processing\<close>




subsection \<open>Facts about the batch loop\<close>

lemma add_batches_done:
  "\<not> i < length remaining_docs \<Longrightarrow> add_batches fails bs remaining_docs i store = ([], store)"
  by (simp add: add_batches.simps)

lemma add_batches_failed_step:
  assumes "i < length remaining_docs" "0 < bs" "fails (i div bs + 2)"
  shows "add_batches fails bs remaining_docs i store =
           (AddTexts (take bs (drop i remaining_docs)) # Sleep (retry_delay * 2) #
              fst (add_batches fails bs remaining_docs (i + bs) store),
            snd (add_batches fails bs remaining_docs (i + bs) store))"
  using assms
  by (subst add_batches.simps) (simp add: Let_def split: prod.splits)

lemma add_batches_inserted_step:
  assumes "i < length remaining_docs" "0 < bs" "\<not> fails (i div bs + 2)"
  shows "add_batches fails bs remaining_docs i store =
           (AddTexts (take bs (drop i remaining_docs)) #
              (if i + bs < length remaining_docs then [Sleep retry_delay] else []) @
              fst (add_batches fails bs remaining_docs (i + bs)
                     (store @ take bs (drop i remaining_docs))),
            snd (add_batches fails bs remaining_docs (i + bs)
                   (store @ take bs (drop i remaining_docs))))"
  using assms
  by (subst add_batches.simps) (simp add: Let_def split: prod.splits)

lemma add_batches_head:
  assumes "i < length remaining_docs" "0 < bs"
  shows "\<exists>events. fst (add_batches fails bs remaining_docs i store) =
           AddTexts (take bs (drop i remaining_docs)) # events"
  using add_batches_failed_step [where fails = fails, OF assms]
    add_batches_inserted_step [where fails = fails, OF assms]
  by (cases "fails (i div bs + 2)") auto

lemma short_pause_is_not_long: "Sleep retry_delay \<noteq> Sleep (retry_delay * 2)"
  by (simp add: retry_delay_def)

lemma add_batches_no_failure:
  assumes "0 < bs"
    and "\<forall>j \<ge> m. j * bs < length remaining_docs \<longrightarrow> \<not> fails (j + 2)"
  shows "snd (add_batches fails bs remaining_docs (m * bs) store) =
           store @ drop (m * bs) remaining_docs \<and>
         Sleep (retry_delay * 2) \<notin> set (fst (add_batches fails bs remaining_docs (m * bs) store))"
  using assms(2)
proof (induction "length remaining_docs - m * bs" arbitrary: m store rule: less_induct)
  case less
  show ?case
  proof (cases "m * bs < length remaining_docs")
    case False
    then show ?thesis by (simp add: add_batches_done)
  next
    case True
    with less.prems have nf: "\<not> fails (m * bs div bs + 2)" using assms(1) by simp
    have dec: "length remaining_docs - Suc m * bs < length remaining_docs - m * bs"
      using True assms(1) by simp
    have later: "\<forall>j \<ge> Suc m. j * bs < length remaining_docs \<longrightarrow> \<not> fails (j + 2)"
      using less.prems by simp
    have next_i: "m * bs + bs = Suc m * bs" by simp
    note ih = less.hyps [OF dec later, of "store @ take bs (drop (m * bs) remaining_docs)"]
    have "take bs (drop (m * bs) remaining_docs) @ drop (Suc m * bs) remaining_docs =
        drop (m * bs) remaining_docs"
      using append_take_drop_id [of bs "drop (m * bs) remaining_docs"]
      by (simp add: add.commute)
    with ih show ?thesis
      unfolding add_batches_inserted_step [where fails = fails, OF True assms(1) nf] next_i
      by (simp add: retry_delay_def)
  qed
qed

lemma add_batches_one_failure:
  assumes "0 < bs"
    and "k * bs < length remaining_docs"
    and "fails (k + 2)"
    and "\<forall>j. j \<noteq> k \<and> j * bs < length remaining_docs \<longrightarrow> \<not> fails (j + 2)"
    and "m \<le> k"
  shows "\<exists>pre post.
           add_batches fails bs remaining_docs (m * bs) store =
             (pre @ AddTexts (take bs (drop (k * bs) remaining_docs)) #
                Sleep (retry_delay * 2) # post,
              store @ take (k * bs - m * bs) (drop (m * bs) remaining_docs) @
                drop (Suc k * bs) remaining_docs) \<and>
           Sleep (retry_delay * 2) \<notin> set pre \<and> Sleep (retry_delay * 2) \<notin> set post \<and>
           (Suc k * bs < length remaining_docs \<longrightarrow>
              (\<exists>post'. post = AddTexts (take bs (drop (Suc k * bs) remaining_docs)) # post'))"
  using assms(5)
proof (induction "k - m" arbitrary: m store)
  case 0
  then have mk: "m = k" by simp
  have f: "fails (k * bs div bs + 2)" using assms(1,3) by simp
  have later: "\<forall>j \<ge> Suc k. j * bs < length remaining_docs \<longrightarrow> \<not> fails (j + 2)"
    using assms(4) by auto
  have next_i: "k * bs + bs = Suc k * bs" by simp
  let ?rest = "add_batches fails bs remaining_docs (Suc k * bs) store"
  from add_batches_no_failure [OF assms(1) later, of store]
  have rest: "snd ?rest = store @ drop (Suc k * bs) remaining_docs"
    "Sleep (retry_delay * 2) \<notin> set (fst ?rest)" by simp_all
  have hd: "Suc k * bs < length remaining_docs \<longrightarrow>
      (\<exists>post'. fst ?rest = AddTexts (take bs (drop (Suc k * bs) remaining_docs)) # post')"
    using add_batches_head [OF _ assms(1)] by blast
  have "add_batches fails bs remaining_docs (k * bs) store =
      ([] @ AddTexts (take bs (drop (k * bs) remaining_docs)) # Sleep (retry_delay * 2) #
         fst ?rest,
       store @ take (k * bs - k * bs) (drop (k * bs) remaining_docs) @
         drop (Suc k * bs) remaining_docs)"
    unfolding add_batches_failed_step [where fails = fails, OF assms(2) assms(1) f] next_i using rest(1) by simp
  with rest(2) hd show ?case unfolding mk by (metis empty_iff empty_set)
next
  case (Suc d)
  then have lt: "m < k" and d: "d = k - Suc m" and le: "Suc m \<le> k" by simp_all
  from lt have "m * bs < k * bs" using assms(1) by simp
  then have here: "m * bs < length remaining_docs" using assms(2) by (rule less_trans)
  have nf: "\<not> fails (m * bs div bs + 2)" using assms(1,4) lt here by simp
  have next_i: "m * bs + bs = Suc m * bs" by simp
  let ?batch = "take bs (drop (m * bs) remaining_docs)"
  let ?pause = "if Suc m * bs < length remaining_docs then [Sleep retry_delay] else []"
  from Suc.hyps(1) [OF d le, of "store @ ?batch"]
  obtain pre post where
    run: "add_batches fails bs remaining_docs (Suc m * bs) (store @ ?batch) =
        (pre @ AddTexts (take bs (drop (k * bs) remaining_docs)) #
           Sleep (retry_delay * 2) # post,
         (store @ ?batch) @ take (k * bs - Suc m * bs) (drop (Suc m * bs) remaining_docs) @
           drop (Suc k * bs) remaining_docs)"
    and pre: "Sleep (retry_delay * 2) \<notin> set pre"
    and post: "Sleep (retry_delay * 2) \<notin> set post"
      "Suc k * bs < length remaining_docs \<longrightarrow>
         (\<exists>post'. post = AddTexts (take bs (drop (Suc k * bs) remaining_docs)) # post')"
    by blast
  have "Suc m * bs \<le> k * bs" using le by (rule mult_le_mono1)
  then have "m * bs + bs \<le> k * bs" by simp
  then have "k * bs - m * bs = bs + (k * bs - (m * bs + bs))" by linarith
  then have "k * bs - m * bs = bs + (k * bs - Suc m * bs)" by (simp add: add.commute)
  then have tk: "take (k * bs - m * bs) (drop (m * bs) remaining_docs) =
      ?batch @ take (k * bs - Suc m * bs) (drop (Suc m * bs) remaining_docs)"
    by (simp add: take_add add.commute)
  have "add_batches fails bs remaining_docs (m * bs) store =
      ((AddTexts ?batch # ?pause @ pre) @ AddTexts (take bs (drop (k * bs) remaining_docs)) #
         Sleep (retry_delay * 2) # post,
       store @ take (k * bs - m * bs) (drop (m * bs) remaining_docs) @
         drop (Suc k * bs) remaining_docs)"
    unfolding add_batches_inserted_step [where fails = fails, OF here assms(1) nf] next_i run tk by simp
  moreover have "Sleep (retry_delay * 2) \<notin> set (AddTexts ?batch # ?pause @ pre)"
    using pre by (simp add: retry_delay_def)
  ultimately show ?case using post by blast
qed

lemma length_numbered_documents: "length (numbered_documents n) = n"
  by (simp add: numbered_documents_def)

text \<open>
  C8, as amended. When the construction from the first batch succeeds and exactly one
  of the later insertions fails, that of the batch at \<open>bs + k * bs\<close>, the build pauses
  \<open>2 * retry_delay\<close> right after the failed insertion and nowhere else, goes on with the
  next batch when there is one, and returns an index that holds all the documents but
  those of the failed batch, in their order.
\<close>

theorem batched_build_one_failed_insert:
  assumes "documents \<noteq> []"
    and "bs = min batch_size (length documents)"
    and "\<not> fails 1"
    and "bs + k * bs < length documents"
    and "fails (k + 2)"
    and "\<forall>j. j \<noteq> k \<and> bs + j * bs < length documents \<longrightarrow> \<not> fails (j + 2)"
  shows "\<exists>pre post.
           create_vectorstore_batched fails documents =
             (pre @ AddTexts (take bs (drop (bs + k * bs) documents)) #
                Sleep (retry_delay * 2) # post,
              Some (take (bs + k * bs) documents @ drop (bs + k * bs + bs) documents)) \<and>
           Sleep (retry_delay * 2) \<notin> set pre \<and> Sleep (retry_delay * 2) \<notin> set post \<and>
           (bs + k * bs + bs < length documents \<longrightarrow>
              (\<exists>post'. post = AddTexts (take bs (drop (bs + k * bs + bs) documents)) # post'))"
proof -
  have pos: "0 < bs" using assms(1,2) by (simp add: batch_size_def)
  let ?rest = "drop bs documents"
  have in_range: "k * bs < length ?rest" using assms(4) by simp
  have others: "\<forall>j. j \<noteq> k \<and> j * bs < length ?rest \<longrightarrow> \<not> fails (j + 2)"
    using assms(6) by (simp add: less_diff_conv add.commute)
  from add_batches_one_failure [OF pos in_range assms(5) others, of 0 "take bs documents"]
  obtain pre post where
    run: "add_batches fails bs ?rest 0 (take bs documents) =
        (pre @ AddTexts (take bs (drop (k * bs) ?rest)) # Sleep (retry_delay * 2) # post,
         take bs documents @ take (k * bs) ?rest @ drop (Suc k * bs) ?rest)"
    and pre: "Sleep (retry_delay * 2) \<notin> set pre"
    and post: "Sleep (retry_delay * 2) \<notin> set post"
      "Suc k * bs < length ?rest \<longrightarrow>
         (\<exists>post'. post = AddTexts (take bs (drop (Suc k * bs) ?rest)) # post')"
    by auto
  have store: "take bs documents @ take (k * bs) ?rest @ drop (Suc k * bs) ?rest =
      take (bs + k * bs) documents @ drop (bs + k * bs + bs) documents"
    by (simp add: take_add add.commute add.left_commute)
  have "create_vectorstore_batched fails documents =
      ((FromDocuments (take bs documents) # pre) @
         AddTexts (take bs (drop (bs + k * bs) documents)) # Sleep (retry_delay * 2) # post,
       Some (take (bs + k * bs) documents @ drop (bs + k * bs + bs) documents))"
    using assms(1,3) run store
    by (simp add: create_vectorstore_batched_def Let_def assms(2) [symmetric] add.commute)
  moreover have "Sleep (retry_delay * 2) \<notin> set (FromDocuments (take bs documents) # pre)"
    using pre by simp
  moreover have "bs + k * bs + bs < length documents \<longrightarrow>
      (\<exists>post'. post = AddTexts (take bs (drop (bs + k * bs + bs) documents)) # post')"
    using post(2) by (simp add: less_diff_conv add.commute add.left_commute)
  ultimately show ?thesis using post(1) by blast
qed

theorem batched_build_one_failed_insert_witness:
  "\<exists>pre post.
     create_vectorstore_batched (\<lambda>n. n = 3) (numbered_documents 65) =
       (pre @ AddTexts (take 20 (drop 40 (numbered_documents 65))) #
          Sleep (retry_delay * 2) # post,
        Some (take 40 (numbered_documents 65) @ drop 60 (numbered_documents 65))) \<and>
     Sleep (retry_delay * 2) \<notin> set pre \<and> Sleep (retry_delay * 2) \<notin> set post \<and>
     (\<exists>post'. post = AddTexts (take 20 (drop 60 (numbered_documents 65))) # post')"
proof -
  have a: "numbered_documents 65 \<noteq> []"
    using length_numbered_documents [of 65] by auto
  have b: "(20::nat) = min batch_size (length (numbered_documents 65))"
    by (simp add: batch_size_def length_numbered_documents)
  have c: "\<not> (\<lambda>n::nat. n = 3) 1" by simp
  have d: "20 + 1 * 20 < length (numbered_documents 65)"
    by (simp add: length_numbered_documents)
  have e: "(\<lambda>n::nat. n = 3) (1 + 2)" by simp
  have f: "\<forall>j. j \<noteq> 1 \<and> 20 + j * 20 < length (numbered_documents 65) \<longrightarrow>
      \<not> (\<lambda>n::nat. n = 3) (j + 2)" by auto
  from batched_build_one_failed_insert [where fails = "\<lambda>n. n = 3", OF a b c d e f]
  show ?thesis by (simp add: length_numbered_documents)
qed

text \<open>
  C8 as it is stated fails when the one failing batch is the first: the construction of
  the index raises, no index is returned, there is no pause, and the second batch is
  never inserted.
\<close>

theorem batched_build_first_batch_fails:
  "create_vectorstore_batched (\<lambda>n. n = 1) (numbered_documents 25) =
     ([FromDocuments (take 20 (numbered_documents 25))], None)"
proof -
  have "numbered_documents 25 \<noteq> []"
    using length_numbered_documents [of 25] by auto
  then show ?thesis
    by (simp add: create_vectorstore_batched_def Let_def batch_size_def
        length_numbered_documents)
qed

subsection \<open>Facts about building and caching\<close>















end
